theory Spec2Isabelle
  imports Complex_Main
begin

section \<open>Python values, exceptions and results\<close>

text \<open>
  The strategy (mm.py) and the venue client (kalshi_api.py) are Python. Python ints are
  HOL ints and Python floats are HOL reals. The quoting formulas are computed in the
  reals. In the three places where the code turns a float into a decision or an int (the
  tolerance test of line 139 of mm.py, \<open>int(price * 100)\<close> in \<open>place_order\<close> and
  \<open>int(max_position * position_limit_buffer)\<close> in \<open>calculate_order_sizes\<close>) each
  float operation is rounded as binary64 does, by \<open>round_double\<close> below. Every exception
  the modelled code can raise is a constructor of \<open>pyexn\<close>; a computation either
  raises or returns.
\<close>

datatype pyexn =
    ZeroDivisionError
  | ValueError
  | TypeError
  | NameError
  | KeyError
  | RequestError

datatype 'a res = Raise pyexn | Ok 'a

text \<open>Python's \<open>int(x)\<close> on a float truncates towards zero.\<close>

definition py_int :: "real \<Rightarrow> int" where
  "py_int x = (if 0 \<le> x then \<lfloor>x\<rfloor> else \<lceil>x\<rceil>)"

section \<open>Binary64 rounding\<close>

text \<open>The number of binary digits of a positive integer.\<close>

function bit_length :: "int \<Rightarrow> int" where
  "bit_length n = (if n \<le> 0 then 0 else 1 + bit_length (n div 2))"
  by pat_completeness auto
termination
  by (relation "measure (\<lambda>n. nat n)") auto

text \<open>For positive \<open>x\<close>, the exponent \<open>e\<close> with \<open>2^e \<le> x < 2^(e+1)\<close>.\<close>

definition binade :: "real \<Rightarrow> int" where
  "binade x =
     (if 1 \<le> x then bit_length \<lfloor>x\<rfloor> - 1
      else - bit_length (\<lceil>1 / x\<rceil> - 1))"

definition pow2 :: "int \<Rightarrow> real" where
  "pow2 s = (if 0 \<le> s then 2 ^ nat s else 1 / 2 ^ nat (- s))"

definition round_half_even :: "real \<Rightarrow> int" where
  "round_half_even y =
     (let f = \<lfloor>y\<rfloor>; d = y - real_of_int f
      in if d < 1 / 2 then f
         else if 1 / 2 < d then f + 1
         else if even f then f else f + 1)"

text \<open>
  The double nearest to a real: round to nearest, ties to even, with a significand of 53
  bits. The exponent range is not bounded, so overflow and subnormal numbers are not
  modelled. A real that is a double is left as it is; a decimal literal of the source,
  like \<open>0.01\<close>, is \<open>round_double (1 / 100)\<close>.
\<close>

definition round_double :: "real \<Rightarrow> real" where
  "round_double x =
     (if x = 0 then 0
      else let s = 52 - binade \<bar>x\<bar>;
               m = round_half_even (\<bar>x\<bar> * pow2 s)
           in sgn x * (real_of_int m / pow2 s))"

section \<open>The market maker of mm.py\<close>

text \<open>
  The attributes set by \<open>AvellanedaMarketMaker.__init__\<close>. The attributes \<open>k\<close>,
  \<open>sigma\<close> and \<open>T\<close> carry the prefix \<open>mm_\<close>.
\<close>

record params =
  base_gamma :: real
  mm_k :: real
  mm_sigma :: real
  mm_T :: real
  max_position :: int
  order_expiration :: int
  min_spread :: real
  position_limit_buffer :: real
  inventory_skew_factor :: real
  trade_side :: string

text \<open>\<open>calculate_dynamic_gamma\<close>: the division by \<open>max_position\<close> raises when it is zero.\<close>

definition calculate_dynamic_gamma :: "params \<Rightarrow> int \<Rightarrow> real res" where
  "calculate_dynamic_gamma p inventory =
     (if max_position p = 0 then Raise ZeroDivisionError
      else let position_ratio = real_of_int inventory / real_of_int (max_position p)
           in Ok (base_gamma p * exp (- \<bar>position_ratio\<bar>)))"

text \<open>\<open>calculate_reservation_price\<close>: \<open>t / T\<close> raises when \<open>T\<close> is zero.\<close>

definition calculate_reservation_price :: "params \<Rightarrow> real \<Rightarrow> int \<Rightarrow> real \<Rightarrow> real res" where
  "calculate_reservation_price p mid_price inventory t =
     (case calculate_dynamic_gamma p inventory of
        Raise e \<Rightarrow> Raise e
      | Ok dynamic_gamma \<Rightarrow>
          let inventory_skew = real_of_int inventory * inventory_skew_factor p * mid_price
          in if mm_T p = 0 then Raise ZeroDivisionError
             else Ok (mid_price + inventory_skew
                      - real_of_int inventory * dynamic_gamma * (mm_sigma p)\<^sup>2 * (1 - t / mm_T p)))"

text \<open>
  \<open>calculate_optimal_spread\<close>. Python evaluates \<open>t / T\<close>, then \<open>2 / dynamic_gamma\<close>, then
  \<open>dynamic_gamma / k\<close>, each raising ZeroDivisionError on a zero divisor, and
  \<open>math.log\<close> raises ValueError on an argument that is not positive.
\<close>

definition calculate_optimal_spread :: "params \<Rightarrow> real \<Rightarrow> int \<Rightarrow> real res" where
  "calculate_optimal_spread p t inventory =
     (case calculate_dynamic_gamma p inventory of
        Raise e \<Rightarrow> Raise e
      | Ok dynamic_gamma \<Rightarrow>
          if mm_T p = 0 then Raise ZeroDivisionError
          else if dynamic_gamma = 0 then Raise ZeroDivisionError
          else if mm_k p = 0 then Raise ZeroDivisionError
          else if 1 + dynamic_gamma / mm_k p \<le> 0 then Raise ValueError
          else
            let base_spread = dynamic_gamma * (mm_sigma p)\<^sup>2 * (1 - t / mm_T p)
                              + (2 / dynamic_gamma) * ln (1 + dynamic_gamma / mm_k p);
                position_ratio = real_of_int \<bar>inventory\<bar> / real_of_int (max_position p);
                spread_adjustment = 1 - position_ratio\<^sup>2
            in Ok (max (base_spread * spread_adjustment * (1 / 100)) (min_spread p)))"

text \<open>
  Lines 67 to 75 of \<open>calculate_asymmetric_quotes\<close>: the two half-spreads
  \<open>(bid_spread, ask_spread)\<close> computed from \<open>base_spread\<close>.
\<close>

definition quote_spreads :: "params \<Rightarrow> int \<Rightarrow> real \<Rightarrow> (real \<times> real) res" where
  "quote_spreads p inventory base_spread =
     (if max_position p = 0 then Raise ZeroDivisionError
      else
        let position_ratio = real_of_int inventory / real_of_int (max_position p);
            spread_adjustment = base_spread * \<bar>position_ratio\<bar> * 3
        in if inventory > 0
           then Ok (base_spread / 2 + spread_adjustment,
                    max (base_spread / 2 - spread_adjustment) (min_spread p / 2))
           else Ok (max (base_spread / 2 - spread_adjustment) (min_spread p / 2),
                    base_spread / 2 + spread_adjustment))"

definition calculate_asymmetric_quotes ::
  "params \<Rightarrow> real \<Rightarrow> int \<Rightarrow> real \<Rightarrow> (real \<times> real) res" where
  "calculate_asymmetric_quotes p mid_price inventory t =
     (case calculate_reservation_price p mid_price inventory t of
        Raise e \<Rightarrow> Raise e
      | Ok reservation_price \<Rightarrow>
          (case calculate_optimal_spread p t inventory of
             Raise e \<Rightarrow> Raise e
           | Ok base_spread \<Rightarrow>
               (case quote_spreads p inventory base_spread of
                  Raise e \<Rightarrow> Raise e
                | Ok (bid_spread, ask_spread) \<Rightarrow>
                    let bid_price = max 0 (min mid_price (reservation_price - bid_spread));
                        ask_price = min 1 (max mid_price (reservation_price + ask_spread))
                    in Ok (bid_price, ask_price))))"

text \<open>
  \<open>calculate_order_sizes\<close>: the product of the int \<open>max_position\<close> and the float
  \<open>position_limit_buffer\<close> is a float product, rounded before \<open>int\<close> truncates it.
\<close>

definition calculate_order_sizes :: "params \<Rightarrow> int \<Rightarrow> int \<times> int" where
  "calculate_order_sizes p inventory =
     (let remaining_capacity = max_position p - \<bar>inventory\<bar>;
          buffer_size = py_int (round_double (round_double (real_of_int (max_position p))
                                               * round_double (position_limit_buffer p)))
      in if inventory > 0
         then (max 1 (min buffer_size remaining_capacity), max 1 (max_position p))
         else (max 1 (max_position p), max 1 (min buffer_size remaining_capacity)))"

text \<open>The parameters of the scenario of the specification, with the constructor's defaults.\<close>

definition scenario_params :: params where
  "scenario_params =
     \<lparr>base_gamma = 1 / 10, mm_k = 3 / 2, mm_sigma = 2 / 100, mm_T = 60,
      max_position = 100, order_expiration = 3600, min_spread = 1 / 100,
      position_limit_buffer = 1 / 10, inventory_skew_factor = 1 / 100,
      trade_side = ''yes''\<rparr>"

section \<open>The venue client of kalshi_api.py\<close>

subsection \<open>Request signing\<close>

text \<open>Python's \<open>s.split(c)\<close> for a one-character separator: the result is never empty.\<close>

fun split_char :: "char \<Rightarrow> string \<Rightarrow> string list" where
  "split_char c [] = [[]]"
| "split_char c (x # xs) =
     (if x = c then [] # split_char c xs
      else (case split_char c xs of
              [] \<Rightarrow> [[x]]
            | w # ws \<Rightarrow> (x # w) # ws))"

text \<open>\<open>path.split('?')[0]\<close>; the index 0 exists since the result of split is never empty.\<close>

definition path_without_query :: "string \<Rightarrow> string" where
  "path_without_query path = (case split_char (CHR ''?'') path of [] \<Rightarrow> [] | w # ws \<Rightarrow> w)"

text \<open>
  Python's \<open>str\<close> on an int: the decimal digits, with a minus sign when negative.
  \<open>digit_char\<close> is only applied to numbers below 10.
\<close>

definition digit_char :: "nat \<Rightarrow> char" where
  "digit_char d = ''0123456789'' ! d"

function str_nat :: "nat \<Rightarrow> string" where
  "str_nat n = (if n < 10 then [digit_char n] else str_nat (n div 10) @ [digit_char (n mod 10)])"
  by pat_completeness auto
termination
  by (relation "measure (\<lambda>n. n)") auto

definition str_int :: "int \<Rightarrow> string" where
  "str_int i = (if i < 0 then CHR ''-'' # str_nat (nat (- i)) else str_nat (nat i))"

record signed_headers =
  KALSHI_ACCESS_KEY :: string
  KALSHI_ACCESS_SIGNATURE :: string
  KALSHI_ACCESS_TIMESTAMP :: string

text \<open>Line 137: the message string handed to \<open>_sign_pss_text\<close>.\<close>

definition msg_string :: "string \<Rightarrow> string \<Rightarrow> string \<Rightarrow> string" where
  "msg_string timestamp_str method path = timestamp_str @ method @ path_without_query path"

text \<open>
  \<open>_get_signed_headers\<close>. The clock reading \<open>current_time_milliseconds\<close> and the RSA-PSS
  signer \<open>_sign_pss_text\<close> (which may raise) are parameters.
\<close>

definition get_signed_headers ::
  "(string \<Rightarrow> string res) \<Rightarrow> string \<Rightarrow> int \<Rightarrow> string \<Rightarrow> string \<Rightarrow> signed_headers res" where
  "get_signed_headers sign_pss_text api_key_id current_time_milliseconds method path =
     (let timestamp_str = str_int current_time_milliseconds
      in case sign_pss_text (msg_string timestamp_str method path) of
           Raise e \<Rightarrow> Raise e
         | Ok sig \<Rightarrow>
             Ok \<lparr>KALSHI_ACCESS_KEY = api_key_id,
                 KALSHI_ACCESS_SIGNATURE = sig,
                 KALSHI_ACCESS_TIMESTAMP = timestamp_str\<rparr>)"

subsection \<open>Gateway operations\<close>

text \<open>
  Each operation of \<open>KalshiTradingAPI\<close> runs its request inside \<open>try\<close>. The outcome of
  the statements of the \<open>try\<close> block (signing, the HTTP exchange, the status check and
  the decoding of the response) is a parameter \<open>body\<close>: \<open>Raise e\<close> when one of them
  raised, \<open>Ok v\<close> with the decoded value otherwise. The \<open>except Exception\<close> handler is
  modelled as written.
\<close>

record prices =
  yes_mid :: real
  no_mid :: real

text \<open>What \<open>get_position\<close> returns: the int total, or the list \<open>[]\<close> of its handler.\<close>

datatype posval = PosInt int | PosList

record position_entry =
  pos_ticker :: string
  pos_position :: int

record order =
  order_id :: string
  order_side :: string
  order_action :: string
  yes_price :: int
  no_price :: int
  remaining_count :: int

text \<open>
  \<open>get_price\<close>: the handler formats its log message with the name \<open>ticker\<close>, which is
  bound neither in the method nor in the module, so the handler raises NameError before it
  reaches \<open>return None\<close>.
\<close>

definition get_price :: "prices res \<Rightarrow> prices option res" where
  "get_price body = (case body of Ok d \<Rightarrow> Ok (Some d) | Raise e \<Rightarrow> Raise NameError)"

definition get_position :: "string \<Rightarrow> position_entry list res \<Rightarrow> posval res" where
  "get_position market_ticker body =
     (case body of
        Ok positions \<Rightarrow>
          Ok (PosInt (sum_list (map pos_position
                (filter (\<lambda>position. pos_ticker position = market_ticker) positions))))
      | Raise e \<Rightarrow> Ok PosList)"

definition get_orders :: "order list res \<Rightarrow> order list res" where
  "get_orders body = (case body of Ok orders \<Rightarrow> Ok orders | Raise e \<Rightarrow> Ok [])"

definition cancel_order :: "unit res \<Rightarrow> bool res" where
  "cancel_order body = (case body of Ok u \<Rightarrow> Ok True | Raise e \<Rightarrow> Ok False)"

text \<open>Python's \<open>str.lower\<close> on ASCII text.\<close>

definition lower_char :: "char \<Rightarrow> char" where
  "lower_char c =
     (let n = (of_char c :: nat) in if 65 \<le> n \<and> n \<le> 90 then char_of (n + 32) else c)"

definition lower :: "string \<Rightarrow> string" where
  "lower s = map lower_char s"

record payload =
  pl_ticker :: string
  pl_action :: string
  pl_side :: string
  pl_count :: real
  pl_type :: string
  pl_yes_price :: "int option"
  pl_no_price :: "int option"
  pl_expiration_ts :: "int option"

text \<open>
  Lines 263 to 278 of \<open>KalshiTradingAPI.place_order(action, side, count, price,
  expiration_ts)\<close>: the JSON payload. \<open>price * 100\<close> is a float product, rounded before
  \<open>int\<close> truncates it.
\<close>

definition place_order_payload ::
  "string \<Rightarrow> string \<Rightarrow> string \<Rightarrow> real \<Rightarrow> real \<Rightarrow> int option \<Rightarrow> payload" where
  "place_order_payload market_ticker action side count price expiration_ts =
     (let price_to_send = py_int (round_double (round_double price * 100))
      in \<lparr>pl_ticker = market_ticker,
          pl_action = lower action,
          pl_side = side,
          pl_count = count,
          pl_type = ''limit'',
          pl_yes_price = (if side = ''yes'' then Some price_to_send else None),
          pl_no_price = (if side = ''yes'' then None else Some price_to_send),
          pl_expiration_ts = expiration_ts\<rparr>)"

text \<open>
  \<open>KalshiTradingAPI.place_order\<close>: \<open>signed\<close> is the outcome of \<open>_get_signed_headers\<close> and
  \<open>body\<close> that of the POST, the status check and the decoding. The result is the list of
  payloads posted and the returned order id (\<open>None\<close> from the handler).
\<close>

definition place_order ::
  "string \<Rightarrow> string \<Rightarrow> string \<Rightarrow> real \<Rightarrow> real \<Rightarrow> int option \<Rightarrow>
   signed_headers res \<Rightarrow> string res \<Rightarrow> payload list \<times> string option" where
  "place_order market_ticker action side count price expiration_ts signed body =
     (let payload = place_order_payload market_ticker action side count price expiration_ts
      in case signed of
           Raise e \<Rightarrow> ([], None)
         | Ok headers \<Rightarrow>
             ([payload], case body of Ok new_order_id \<Rightarrow> Some new_order_id | Raise e \<Rightarrow> None))"

text \<open>
  A call through the interface \<open>AbstractTradingAPI.place_order(action, side, price,
  quantity, expiration_ts)\<close> with positional arguments, as line 150 of mm.py makes it, on
  a \<open>KalshiTradingAPI\<close> object: Python binds the arguments by position.
\<close>

definition api_place_order ::
  "string \<Rightarrow> string \<Rightarrow> string \<Rightarrow> real \<Rightarrow> int \<Rightarrow> int option \<Rightarrow>
   signed_headers res \<Rightarrow> string res \<Rightarrow> payload list \<times> string option" where
  "api_place_order market_ticker action side price quantity expiration_ts signed body =
     place_order market_ticker action side price (real_of_int quantity) expiration_ts signed body"

section \<open>Order reconciliation and the tick of mm.py\<close>

text \<open>The calls a tick makes on the gateway that change the venue's order book.\<close>

datatype api_call =
    CancelOrder string
  | PlaceOrder string string real int int

text \<open>\<open>mid_prices[self.trade_side]\<close> on the dict with the keys \<open>yes\<close> and \<open>no\<close>.\<close>

definition price_for :: "string \<Rightarrow> prices \<Rightarrow> real res" where
  "price_for side_key d =
     (if side_key = ''yes'' then Ok (yes_mid d)
      else if side_key = ''no'' then Ok (no_mid d)
      else Raise KeyError)"

text \<open>
  Line 138: the price of an open order on the traded side, \<open>float(cents) / 100\<close>, a
  float division.
\<close>

definition order_price :: "params \<Rightarrow> order \<Rightarrow> real" where
  "order_price p order =
     (if trade_side p = ''yes''
      then round_double (round_double (real_of_int (yes_price order)) / 100)
      else round_double (round_double (real_of_int (no_price order)) / 100))"

text \<open>
  Line 139, without the test on \<open>keep_order\<close>: the order matches the desired quote.
  The difference is a float subtraction and \<open>0.01\<close> is the double nearest to 1/100.
\<close>

definition order_matches :: "params \<Rightarrow> real \<Rightarrow> int \<Rightarrow> order \<Rightarrow> bool" where
  "order_matches p desired_price desired_size order =
     (\<bar>round_double (order_price p order - round_double desired_price)\<bar>
        < round_double (1 / 100)
      \<and> remaining_count order = desired_size)"

text \<open>
  The \<open>for\<close> loop of \<open>handle_order_side\<close>, threading \<open>keep_order\<close> and the calls
  issued so far.
\<close>

fun scan_orders ::
  "params \<Rightarrow> real \<Rightarrow> int \<Rightarrow> order list \<Rightarrow> order option \<Rightarrow> api_call list \<Rightarrow>
   order option \<times> api_call list" where
  "scan_orders p desired_price desired_size [] keep_order calls = (keep_order, calls)"
| "scan_orders p desired_price desired_size (order # orders) keep_order calls =
     (if keep_order = None \<and> order_matches p desired_price desired_size order
      then scan_orders p desired_price desired_size orders (Some order) calls
      else scan_orders p desired_price desired_size orders keep_order
             (calls @ [CancelOrder (order_id order)]))"

text \<open>
  \<open>handle_order_side\<close>. \<open>price_result\<close> is what \<open>self.api.get_price()\<close> gives at line 146
  and \<open>now\<close> is \<open>int(time.time())\<close>. The bool that \<open>cancel_order\<close> returns is
  ignored, and an exception of \<open>place_order\<close> is caught at line 152, so the call is
  issued and the method returns in either case. The result is the calls issued and
  whether the method returned or raised.
\<close>

definition handle_order_side ::
  "params \<Rightarrow> string \<Rightarrow> order list \<Rightarrow> real \<Rightarrow> int \<Rightarrow> prices option res \<Rightarrow> int \<Rightarrow>
   api_call list \<times> unit res" where
  "handle_order_side p action orders desired_price desired_size price_result now =
     (case scan_orders p desired_price desired_size orders None [] of
        (keep_order, calls) \<Rightarrow>
          (case price_result of
             Raise e \<Rightarrow> (calls, Raise e)
           | Ok None \<Rightarrow> (calls, Raise TypeError)
           | Ok (Some d) \<Rightarrow>
               (case price_for (trade_side p) d of
                  Raise e \<Rightarrow> (calls, Raise e)
                | Ok current_price \<Rightarrow>
                    if keep_order = None then
                      if (action = ''buy'' \<and> desired_price < current_price)
                         \<or> (action = ''sell'' \<and> desired_price > current_price)
                      then (calls @ [PlaceOrder action (trade_side p) desired_price
                                       desired_size (now + order_expiration p)], Ok ())
                      else (calls, Ok ())
                    else (calls, Ok ()))))"

text \<open>
  \<open>manage_orders\<close>: \<open>orders_result\<close> is what \<open>self.api.get_orders()\<close> gives;
  \<open>price_buy\<close> and \<open>price_sell\<close> are the prices fetched, and \<open>now_buy\<close> and
  \<open>now_sell\<close> the clock readings, while the buy and the sell side are handled.
\<close>

definition manage_orders ::
  "params \<Rightarrow> order list res \<Rightarrow> real \<Rightarrow> real \<Rightarrow> int \<Rightarrow> int \<Rightarrow>
   prices option res \<Rightarrow> prices option res \<Rightarrow> int \<Rightarrow> int \<Rightarrow> api_call list \<times> unit res" where
  "manage_orders p orders_result bid_price ask_price buy_size sell_size price_buy price_sell
     now_buy now_sell =
     (case orders_result of
        Raise e \<Rightarrow> ([], Raise e)
      | Ok current_orders \<Rightarrow>
          let buy_orders = filter (\<lambda>order. order_side order = trade_side p
                                     \<and> order_action order = ''buy'') current_orders;
              sell_orders = filter (\<lambda>order. order_side order = trade_side p
                                      \<and> order_action order = ''sell'') current_orders
          in (case handle_order_side p ''buy'' buy_orders bid_price buy_size price_buy
                     now_buy of
                (calls, Raise e) \<Rightarrow> (calls, Raise e)
              | (calls, Ok u) \<Rightarrow>
                  (case handle_order_side p ''sell'' sell_orders ask_price sell_size
                          price_sell now_sell of
                     (calls', r) \<Rightarrow> (calls @ calls', r))))"

text \<open>
  The body of the \<open>while\<close> loop of \<open>run\<close>, up to the sleep. \<open>price_result\<close> and
  \<open>position_result\<close> are what \<open>get_price\<close> and \<open>get_position\<close> give at lines 45 and 47.
  A position that is the list \<open>[]\<close> reaches \<open>inventory / self.max_position\<close> in
  \<open>calculate_dynamic_gamma\<close>, where Python raises TypeError. \<open>run\<close> has no handler,
  so an exception of the tick ends the loop.
\<close>

definition run_tick ::
  "params \<Rightarrow> real \<Rightarrow> prices option res \<Rightarrow> posval res \<Rightarrow> order list res \<Rightarrow>
   prices option res \<Rightarrow> prices option res \<Rightarrow> int \<Rightarrow> int \<Rightarrow> api_call list \<times> unit res" where
  "run_tick p current_time price_result position_result orders_result price_buy price_sell
     now_buy now_sell =
     (case price_result of
        Raise e \<Rightarrow> ([], Raise e)
      | Ok None \<Rightarrow> ([], Raise TypeError)
      | Ok (Some mid_prices) \<Rightarrow>
          (case price_for (trade_side p) mid_prices of
             Raise e \<Rightarrow> ([], Raise e)
           | Ok mid_price \<Rightarrow>
               (case position_result of
                  Raise e \<Rightarrow> ([], Raise e)
                | Ok PosList \<Rightarrow> ([], Raise TypeError)
                | Ok (PosInt inventory) \<Rightarrow>
                    (case calculate_reservation_price p mid_price inventory current_time of
                       Raise e \<Rightarrow> ([], Raise e)
                     | Ok reservation_price \<Rightarrow>
                         (case calculate_asymmetric_quotes p mid_price inventory current_time of
                            Raise e \<Rightarrow> ([], Raise e)
                          | Ok (bid_price, ask_price) \<Rightarrow>
                              (case calculate_order_sizes p inventory of
                                 (buy_size, sell_size) \<Rightarrow>
                                   manage_orders p orders_result bid_price ask_price
                                     buy_size sell_size price_buy price_sell
                                     now_buy now_sell))))))"

text \<open>
  Open buy orders for 10 contracts at 45, 57, 56 and again 56 cents, and a market quoted
  at one half.
\<close>

definition order_a :: order where
  "order_a = \<lparr>order_id = ''a'', order_side = ''yes'', order_action = ''buy'',
              yes_price = 45, no_price = 55, remaining_count = 10\<rparr>"

definition order_b :: order where
  "order_b = \<lparr>order_id = ''b'', order_side = ''yes'', order_action = ''buy'',
              yes_price = 57, no_price = 43, remaining_count = 10\<rparr>"

definition order_c :: order where
  "order_c = \<lparr>order_id = ''c'', order_side = ''yes'', order_action = ''buy'',
              yes_price = 56, no_price = 44, remaining_count = 10\<rparr>"

definition order_d :: order where
  "order_d = \<lparr>order_id = ''d'', order_side = ''yes'', order_action = ''buy'',
              yes_price = 56, no_price = 44, remaining_count = 10\<rparr>"

definition half_prices :: prices where
  "half_prices = \<lparr>yes_mid = 1 / 2, no_mid = 1 / 2\<rparr>"

section \<open>Properties of the quoting functions\<close>

lemmas double_eval = round_double_def binade_def pow2_def round_half_even_def Let_def


lemma dynamic_gamma_Ok:
  "max_position p \<noteq> 0 \<Longrightarrow>
   calculate_dynamic_gamma p inventory =
     Ok (base_gamma p * exp (- \<bar>real_of_int inventory / real_of_int (max_position p)\<bar>))"
  by (simp add: calculate_dynamic_gamma_def)

lemma dynamic_gamma_pos:
  "max_position p \<noteq> 0 \<Longrightarrow> 0 < base_gamma p \<Longrightarrow>
   \<exists>g. calculate_dynamic_gamma p inventory = Ok g \<and> 0 < g"
  by (simp add: dynamic_gamma_Ok)

lemma reservation_price_Ok:
  assumes "max_position p \<noteq> 0" and "mm_T p \<noteq> 0"
  shows "\<exists>r. calculate_reservation_price p mid_price inventory t = Ok r"
  using assms by (simp add: calculate_reservation_price_def dynamic_gamma_Ok)

lemma optimal_spread_eq:
  assumes "calculate_dynamic_gamma p inventory = Ok g" and "0 < g"
    and "0 < mm_k p" and "mm_T p \<noteq> 0"
  shows "calculate_optimal_spread p t inventory =
           Ok (max ((g * (mm_sigma p)\<^sup>2 * (1 - t / mm_T p) + (2 / g) * ln (1 + g / mm_k p))
                    * (1 - (real_of_int \<bar>inventory\<bar> / real_of_int (max_position p))\<^sup>2)
                    * (1 / 100)) (min_spread p))"
proof -
  have "0 < g / mm_k p" using assms by simp
  then have "\<not> 1 + g / mm_k p \<le> 0" by linarith
  then show ?thesis
    using assms by (simp add: calculate_optimal_spread_def Let_def)
qed

lemma optimal_spread_floor:
  assumes "0 < base_gamma p" and "0 < mm_k p" and "max_position p \<noteq> 0" and "mm_T p \<noteq> 0"
  shows "\<exists>s. calculate_optimal_spread p t inventory = Ok s \<and> min_spread p \<le> s"
proof -
  obtain g where g: "calculate_dynamic_gamma p inventory = Ok g" "0 < g"
    using dynamic_gamma_pos assms by blast
  show ?thesis
    unfolding optimal_spread_eq [OF g assms(2) assms(4)] by simp
qed

lemma quote_spreads_zero:
  assumes "max_position p \<noteq> 0" and "min_spread p \<le> s"
  shows "quote_spreads p 0 s = Ok (s / 2, s / 2)"
  using assms by (simp add: quote_spreads_def max_def)

lemma reservation_price_zero:
  "calculate_reservation_price p mid_price 0 t =
     (if max_position p = 0 \<or> mm_T p = 0 then Raise ZeroDivisionError else Ok mid_price)"
  by (simp add: calculate_reservation_price_def calculate_dynamic_gamma_def)

lemma optimal_spread_Ok_floor:
  assumes "calculate_optimal_spread p t inventory = Ok s"
  shows "min_spread p \<le> s \<and> max_position p \<noteq> 0 \<and> mm_T p \<noteq> 0"
  using assms
  by (auto simp: calculate_optimal_spread_def calculate_dynamic_gamma_def Let_def
           split: if_splits res.splits)

lemma optimal_spread_Raise:
  assumes "max_position p = 0 \<or> mm_T p = 0"
  shows "calculate_optimal_spread p t inventory = Raise ZeroDivisionError"
  using assms
  by (auto simp: calculate_optimal_spread_def calculate_dynamic_gamma_def)

lemma asymmetric_quotes_clamped:
  assumes "calculate_asymmetric_quotes p mid_price inventory t = Ok (bid, ask)"
    and "0 \<le> mid_price" and "mid_price \<le> 1"
  shows "bid \<le> mid_price \<and> mid_price \<le> ask \<and> 0 \<le> bid \<and> bid \<le> 1 \<and> 0 \<le> ask \<and> ask \<le> 1"
  using assms
  by (auto simp: calculate_asymmetric_quotes_def Let_def split: res.splits prod.splits)

lemma quote_spreads_Ok:
  "max_position p \<noteq> 0 \<Longrightarrow> \<exists>b a. quote_spreads p inventory s = Ok (b, a)"
  by (simp add: quote_spreads_def Let_def)

lemma asymmetric_quotes_Ok:
  assumes "0 < base_gamma p" and "0 < mm_k p" and "max_position p \<noteq> 0" and "mm_T p \<noteq> 0"
  shows "\<exists>bid ask. calculate_asymmetric_quotes p mid_price inventory t = Ok (bid, ask)"
proof -
  obtain r where r: "calculate_reservation_price p mid_price inventory t = Ok r"
    using reservation_price_Ok assms by blast
  obtain s where s: "calculate_optimal_spread p t inventory = Ok s"
    using optimal_spread_floor assms by blast
  obtain b a where q: "quote_spreads p inventory s = Ok (b, a)"
    using quote_spreads_Ok assms by blast
  show ?thesis
    using r s q by (simp add: calculate_asymmetric_quotes_def Let_def)
qed

text \<open>
  Claim C5. For every mid price in [0,1], every inventory in [-max_position, max_position]
  and every t in [0,T], with max_position at least 1 and T, gamma, k and min_spread
  positive, \<open>calculate_asymmetric_quotes\<close> returns a pair (bid, ask) with
  bid \<open>\<le>\<close> mid \<open>\<le>\<close> ask and both prices in [0,1].
\<close>

theorem asymmetric_quotes_bounds:
  assumes "0 \<le> mid_price" and "mid_price \<le> 1"
    and "- max_position p \<le> inventory" and "inventory \<le> max_position p"
    and "0 \<le> t" and "t \<le> mm_T p"
    and "1 \<le> max_position p" and "0 < mm_T p" and "0 < base_gamma p" and "0 < mm_k p"
    and "0 < min_spread p"
  shows "\<exists>bid ask. calculate_asymmetric_quotes p mid_price inventory t = Ok (bid, ask)
           \<and> bid \<le> mid_price \<and> mid_price \<le> ask
           \<and> 0 \<le> bid \<and> bid \<le> 1 \<and> 0 \<le> ask \<and> ask \<le> 1"
proof -
  have "max_position p \<noteq> 0" and "mm_T p \<noteq> 0" using assms by auto
  then obtain bid ask where
    q: "calculate_asymmetric_quotes p mid_price inventory t = Ok (bid, ask)"
    using asymmetric_quotes_Ok assms by blast
  show ?thesis
    using q asymmetric_quotes_clamped [OF q assms(1) assms(2)] by simp
qed

theorem asymmetric_quotes_bounds_witness:
  "\<exists>bid ask. calculate_asymmetric_quotes scenario_params (1 / 2) 0 0 = Ok (bid, ask)
     \<and> bid \<le> 1 / 2 \<and> 1 / 2 \<le> ask \<and> 0 \<le> bid \<and> bid \<le> 1 \<and> 0 \<le> ask \<and> ask \<le> 1"
  using asymmetric_quotes_bounds [of "1 / 2" scenario_params 0 0]
  by (simp add: scenario_params_def)

text \<open>
  Claim C6 as stated puts no condition on the horizon T. With T = 0 the time t = 0 lies in
  [0,T] and the division \<open>t / T\<close> raises ZeroDivisionError, so no spread is returned.
\<close>

theorem optimal_spread_horizon_zero_counterexample:
  "calculate_optimal_spread (scenario_params\<lparr>mm_T := 0\<rparr>) 0 0 = Raise ZeroDivisionError"
  by (simp add: calculate_optimal_spread_def calculate_dynamic_gamma_def scenario_params_def)

text \<open>
  Claim C6, amended. For every t in [0,T] and every inventory in
  [-max_position, max_position], with gamma, k, min_spread and T positive and max_position
  at least 1, \<open>calculate_optimal_spread\<close> returns a spread that is at least min_spread.
\<close>

theorem optimal_spread_at_least_min_spread:
  assumes "0 \<le> t" and "t \<le> mm_T p" and "0 < mm_T p"
    and "- max_position p \<le> inventory" and "inventory \<le> max_position p"
    and "0 < base_gamma p" and "0 < mm_k p" and "1 \<le> max_position p" and "0 < min_spread p"
  shows "\<exists>s. calculate_optimal_spread p t inventory = Ok s \<and> min_spread p \<le> s"
proof -
  have "max_position p \<noteq> 0" and "mm_T p \<noteq> 0" using assms by auto
  then show ?thesis using optimal_spread_floor assms by blast
qed

theorem optimal_spread_at_least_min_spread_witness:
  "\<exists>s. calculate_optimal_spread scenario_params 30 50 = Ok s \<and> min_spread scenario_params \<le> s"
  using optimal_spread_at_least_min_spread [of 30 scenario_params 50]
  by (simp add: scenario_params_def)

text \<open>
  Claim C10 as stated puts no condition on the horizon T either: with T = 0, t = 0 and a
  full position the call raises ZeroDivisionError instead of returning min_spread.
\<close>

theorem optimal_spread_full_position_horizon_zero_counterexample:
  "calculate_optimal_spread (scenario_params\<lparr>mm_T := 0\<rparr>) 0 100 = Raise ZeroDivisionError
   \<and> \<bar>100 :: int\<bar> = max_position (scenario_params\<lparr>mm_T := 0\<rparr>)"
  by (simp add: calculate_optimal_spread_def calculate_dynamic_gamma_def scenario_params_def)

text \<open>
  Claim C10, amended. For every t in [0,T], with gamma, k, min_spread and T positive and
  max_position at least 1, when the absolute inventory equals max_position,
  \<open>calculate_optimal_spread\<close> returns min_spread exactly: the factor
  1 - (|inventory| / max_position) squared is zero and the floor takes over.
\<close>

theorem optimal_spread_full_position:
  assumes "0 \<le> t" and "t \<le> mm_T p" and "0 < mm_T p"
    and "0 < base_gamma p" and "0 < mm_k p" and "0 < min_spread p" and "1 \<le> max_position p"
    and "\<bar>inventory\<bar> = max_position p"
  shows "calculate_optimal_spread p t inventory = Ok (min_spread p)"
proof -
  have m: "max_position p \<noteq> 0" and T: "mm_T p \<noteq> 0" using assms by auto
  obtain g where g: "calculate_dynamic_gamma p inventory = Ok g" "0 < g"
    using dynamic_gamma_pos m assms by blast
  have ratio: "real_of_int \<bar>inventory\<bar> / real_of_int (max_position p) = 1"
    using assms m by simp
  show ?thesis
    unfolding optimal_spread_eq [OF g assms(5) T] ratio using assms(6) by simp
qed

theorem optimal_spread_full_position_witness:
  "calculate_optimal_spread scenario_params 30 (- 100) = Ok (min_spread scenario_params)"
  using optimal_spread_full_position [of 30 scenario_params "- 100"]
  by (simp add: scenario_params_def)

text \<open>
  Claim C3 as stated expects buy_size = sell_size = max_position at inventory 0. The
  branch taken for an inventory that is not positive caps the sell size by the buffer:
  the sizes are (100, 10).
\<close>

theorem scenario_order_sizes_counterexample:
  "calculate_order_sizes scenario_params 0 = (100, 10)
   \<and> snd (calculate_order_sizes scenario_params 0) \<noteq> max_position scenario_params"
  by (simp add: calculate_order_sizes_def scenario_params_def py_int_def double_eval)

text \<open>
  Claim C3, amended. For mid 0.50, inventory 0, t = 0, T = 60, gamma 0.1, k 1.5, sigma 0.02,
  max_position 100, min_spread 0.01, position_limit_buffer 0.1 and inventory_skew_factor
  0.01, the quote satisfies bid < 0.50 < ask, and \<open>calculate_order_sizes 0\<close> returns
  buy_size = max_position = 100 and sell_size = 10.
\<close>

theorem scenario_quote:
  "(\<exists>bid ask. calculate_asymmetric_quotes scenario_params (1 / 2) 0 0 = Ok (bid, ask)
       \<and> bid < 1 / 2 \<and> 1 / 2 < ask)
   \<and> calculate_order_sizes scenario_params 0 = (max_position scenario_params, 10)"
proof -
  have m: "max_position scenario_params \<noteq> 0" and T: "mm_T scenario_params \<noteq> 0"
    and g: "0 < base_gamma scenario_params" and k: "0 < mm_k scenario_params"
    and ms: "min_spread scenario_params = 1 / 100"
    by (simp_all add: scenario_params_def)
  obtain s where s: "calculate_optimal_spread scenario_params 0 0 = Ok s"
    and fl: "min_spread scenario_params \<le> s"
    using optimal_spread_floor [OF g k m T] by blast
  have r: "calculate_reservation_price scenario_params (1 / 2) 0 0 = Ok (1 / 2)"
    using m T by (simp add: reservation_price_zero)
  have q: "quote_spreads scenario_params 0 s = Ok (s / 2, s / 2)"
    using quote_spreads_zero [OF m fl] .
  have "calculate_asymmetric_quotes scenario_params (1 / 2) 0 0
          = Ok (max 0 (min (1 / 2) (1 / 2 - s / 2)), min 1 (max (1 / 2) (1 / 2 + s / 2)))"
    using r s q by (simp add: calculate_asymmetric_quotes_def Let_def)
  moreover have "max 0 (min (1 / 2) (1 / 2 - s / 2)) < 1 / 2"
    using fl ms by (simp add: max_def min_def)
  moreover have "1 / 2 < min 1 (max (1 / 2) (1 / 2 + s / 2))"
    using fl ms by (simp add: max_def min_def)
  moreover have "calculate_order_sizes scenario_params 0 = (max_position scenario_params, 10)"
    by (simp add: calculate_order_sizes_def scenario_params_def py_int_def double_eval)
  ultimately show ?thesis by blast
qed

text \<open>
  Claim C9. At inventory 0 the quote is symmetric about the reservation price (which is
  the mid price) before clamping: for every mid price and time, the bid half-spread and
  the ask half-spread computed in \<open>calculate_asymmetric_quotes\<close> both equal
  \<open>calculate_optimal_spread t 0 / 2\<close>; the quote raises exactly when the spread does, and
  the spread is returned for valid parameters and t in [0,T].
\<close>

theorem zero_inventory_symmetric:
  "calculate_asymmetric_quotes p mid_price 0 t =
     (case calculate_optimal_spread p t 0 of
        Raise e \<Rightarrow> Raise e
      | Ok s \<Rightarrow> Ok (max 0 (min mid_price (mid_price - s / 2)),
                   min 1 (max mid_price (mid_price + s / 2))))
   \<and> (\<forall>s. calculate_optimal_spread p t 0 = Ok s \<longrightarrow> quote_spreads p 0 s = Ok (s / 2, s / 2))
   \<and> (0 \<le> t \<and> t \<le> mm_T p \<and> 0 < mm_T p \<and> 0 < base_gamma p \<and> 0 < mm_k p
        \<and> 1 \<le> max_position p
      \<longrightarrow> (\<exists>s. calculate_optimal_spread p t 0 = Ok s))"
proof (intro conjI allI impI)
  show "calculate_asymmetric_quotes p mid_price 0 t =
     (case calculate_optimal_spread p t 0 of
        Raise e \<Rightarrow> Raise e
      | Ok s \<Rightarrow> Ok (max 0 (min mid_price (mid_price - s / 2)),
                   min 1 (max mid_price (mid_price + s / 2))))"
  proof (cases "calculate_optimal_spread p t 0")
    case (Raise e)
    show ?thesis
    proof (cases "max_position p = 0 \<or> mm_T p = 0")
      case True
      then show ?thesis
        using optimal_spread_Raise [OF True, of t 0]
        by (simp add: calculate_asymmetric_quotes_def reservation_price_zero)
    next
      case False
      then show ?thesis
        using Raise by (simp add: calculate_asymmetric_quotes_def reservation_price_zero)
    qed
  next
    case (Ok s)
    have f: "min_spread p \<le> s" "max_position p \<noteq> 0" "mm_T p \<noteq> 0"
      using optimal_spread_Ok_floor [OF Ok] by auto
    show ?thesis
      using Ok f quote_spreads_zero [OF f(2) f(1)]
      by (simp add: calculate_asymmetric_quotes_def reservation_price_zero Let_def)
  qed
next
  fix s assume s: "calculate_optimal_spread p t 0 = Ok s"
  have f: "min_spread p \<le> s" "max_position p \<noteq> 0"
    using optimal_spread_Ok_floor [OF s] by auto
  show "quote_spreads p 0 s = Ok (s / 2, s / 2)"
    using quote_spreads_zero [OF f(2) f(1)] .
next
  assume a: "0 \<le> t \<and> t \<le> mm_T p \<and> 0 < mm_T p \<and> 0 < base_gamma p \<and> 0 < mm_k p
        \<and> 1 \<le> max_position p"
  then have "max_position p \<noteq> 0" "mm_T p \<noteq> 0" by auto
  then show "\<exists>s. calculate_optimal_spread p t 0 = Ok s"
    using optimal_spread_floor a by blast
qed

theorem zero_inventory_symmetric_witness:
  "\<exists>s. calculate_optimal_spread scenario_params 0 0 = Ok s
       \<and> quote_spreads scenario_params 0 s = Ok (s / 2, s / 2)
       \<and> calculate_asymmetric_quotes scenario_params (1 / 2) 0 0
           = Ok (max 0 (min (1 / 2) (1 / 2 - s / 2)), min 1 (max (1 / 2) (1 / 2 + s / 2)))"
proof -
  have v: "0 \<le> (0::real) \<and> 0 \<le> mm_T scenario_params \<and> 0 < mm_T scenario_params
           \<and> 0 < base_gamma scenario_params \<and> 0 < mm_k scenario_params
           \<and> 1 \<le> max_position scenario_params"
    by (simp add: scenario_params_def)
  from zero_inventory_symmetric [of scenario_params "1 / 2" 0] v
  obtain s where s: "calculate_optimal_spread scenario_params 0 0 = Ok s" by blast
  show ?thesis
    using zero_inventory_symmetric [of scenario_params "1 / 2" 0] s by auto
qed

section \<open>Properties of reconciliation and of the gateway\<close>

lemma scan_orders_kept:
  "scan_orders p dp ds orders (Some k) calls =
     (Some k, calls @ map (\<lambda>x. CancelOrder (order_id x)) orders)"
  by (induction orders arbitrary: calls) simp_all

lemma scan_orders_no_match:
  "\<forall>x\<in>set orders. \<not> order_matches p dp ds x \<Longrightarrow>
   scan_orders p dp ds orders None calls =
     (None, calls @ map (\<lambda>x. CancelOrder (order_id x)) orders)"
  by (induction orders arbitrary: calls) simp_all

lemma scan_orders_first_match:
  assumes "\<forall>x\<in>set pre. \<not> order_matches p dp ds x" and "order_matches p dp ds k"
  shows "scan_orders p dp ds (pre @ k # post) None calls =
           (Some k, calls @ map (\<lambda>x. CancelOrder (order_id x)) (pre @ post))"
  using assms(1)
proof (induction pre arbitrary: calls)
  case Nil
  show ?case using assms(2) by (simp add: scan_orders_kept)
next
  case (Cons x xs)
  then show ?case by simp
qed

lemma scan_orders_only_cancels:
  "PlaceOrder a s pr q e \<notin> set calls \<Longrightarrow>
   PlaceOrder a s pr q e \<notin> set (snd (scan_orders p dp ds orders keep calls))"
  by (induction orders arbitrary: keep calls) simp_all

lemma handle_order_side_calls_kept:
  assumes "scan_orders p dp ds orders None [] = (Some k, calls)"
  shows "fst (handle_order_side p action orders dp ds price_result now) = calls"
  using assms
  by (simp add: handle_order_side_def split: res.splits option.splits)

lemma order_matches_examples:
  "\<not> order_matches scenario_params (46 / 100) 10 order_a"
  "order_matches scenario_params (91 / 200) 10 order_a"
  "order_matches scenario_params (56 / 100) 10 order_b"
  "order_matches scenario_params (56 / 100) 10 order_c"
  "order_matches scenario_params (56 / 100) 10 order_d"
  by (simp_all add: order_matches_def order_price_def scenario_params_def
                    order_a_def order_b_def order_c_def order_d_def double_eval)

text \<open>
  Claim C4, amended. Reconciliation is idempotent in the matched case, for the tolerance
  test the code makes: when the open orders of a side contain an order that passes the
  test of line 139 (the float value of \<open>abs(current_price - desired_price)\<close> is below the
  float 0.01) and whose remaining size equals the desired size, a pass over that side
  keeps the first such order, issues \<open>cancel_order\<close> for exactly the other orders of the
  side, in list order, and issues no \<open>place_order\<close>; when it is the only order on the
  side, the pass issues no call at all.
\<close>

theorem reconcile_matched_side:
  assumes "k \<in> set orders" and "order_matches p desired_price desired_size k"
  shows "(\<exists>pre first post.
            orders = pre @ first # post
          \<and> (\<forall>x\<in>set pre. \<not> order_matches p desired_price desired_size x)
          \<and> order_matches p desired_price desired_size first
          \<and> fst (handle_order_side p action orders desired_price desired_size
                   price_result now)
              = map (\<lambda>x. CancelOrder (order_id x)) (pre @ post))
         \<and> (orders = [k] \<longrightarrow>
              fst (handle_order_side p action orders desired_price desired_size
                     price_result now) = [])"
proof (intro conjI impI)
  have "\<exists>x\<in>set orders. order_matches p desired_price desired_size x"
    using assms by blast
  then obtain pre first post where d: "orders = pre @ first # post"
    and f: "order_matches p desired_price desired_size first"
    and n: "\<forall>x\<in>set pre. \<not> order_matches p desired_price desired_size x"
    using split_list_first_prop [of orders "order_matches p desired_price desired_size"]
    by blast
  have "scan_orders p desired_price desired_size orders None []
          = (Some first, map (\<lambda>x. CancelOrder (order_id x)) (pre @ post))"
    using scan_orders_first_match [OF n f, of post "[]"] d by simp
  then have "fst (handle_order_side p action orders desired_price desired_size
                    price_result now)
               = map (\<lambda>x. CancelOrder (order_id x)) (pre @ post)"
    by (rule handle_order_side_calls_kept)
  then show "\<exists>pre first post.
            orders = pre @ first # post
          \<and> (\<forall>x\<in>set pre. \<not> order_matches p desired_price desired_size x)
          \<and> order_matches p desired_price desired_size first
          \<and> fst (handle_order_side p action orders desired_price desired_size
                   price_result now)
              = map (\<lambda>x. CancelOrder (order_id x)) (pre @ post)"
    using d f n by blast
next
  assume o: "orders = [k]"
  have "scan_orders p desired_price desired_size orders None [] = (Some k, [])"
    using o assms(2) by simp
  then show "fst (handle_order_side p action orders desired_price desired_size
                    price_result now) = []"
    by (rule handle_order_side_calls_kept)
qed

text \<open>
  Claim C4 as stated takes the tolerance of 1 cent as inclusive and has only orders that
  do not match cancelled. An order at 45 cents with the desired size, against a desired
  price of 0.46, fails the test of line 139: it is cancelled and a new order is placed.
  Of two orders at 56 cents with the desired size, against a desired price of 0.56, the
  second is cancelled although it matches.
\<close>

theorem reconcile_one_cent_counterexample:
  "\<bar>real_of_int (yes_price order_a) / 100 - 46 / 100\<bar> \<le> 1 / 100
   \<and> remaining_count order_a = 10
   \<and> fst (handle_order_side scenario_params ''buy'' [order_a] (46 / 100) 10
            (Ok (Some half_prices)) 0)
       = [CancelOrder ''a'', PlaceOrder ''buy'' ''yes'' (46 / 100) 10 3600]
   \<and> order_matches scenario_params (56 / 100) 10 order_d
   \<and> fst (handle_order_side scenario_params ''buy'' [order_c, order_d] (56 / 100) 10
            (Ok (Some half_prices)) 0)
       = [CancelOrder ''d'']"
proof -
  have a: "yes_price order_a = 45" "remaining_count order_a = 10" "order_id order_a = ''a''"
    and d: "order_id order_d = ''d''"
    by (simp_all add: order_a_def order_d_def)
  have p: "price_for (trade_side scenario_params) half_prices = Ok (1 / 2)"
    and e: "order_expiration scenario_params = 3600" "trade_side scenario_params = ''yes''"
    by (simp_all add: price_for_def scenario_params_def half_prices_def)
  show ?thesis
    using order_matches_examples a d p e by (simp add: handle_order_side_def)
qed

theorem reconcile_matched_side_witness:
  "order_c \<in> set [order_b, order_c]
   \<and> order_matches scenario_params (56 / 100) 10 order_c
   \<and> (\<exists>pre first post.
         [order_b, order_c] = pre @ first # post
       \<and> (\<forall>x\<in>set pre. \<not> order_matches scenario_params (56 / 100) 10 x)
       \<and> order_matches scenario_params (56 / 100) 10 first
       \<and> fst (handle_order_side scenario_params ''buy'' [order_b, order_c] (56 / 100) 10
                (Ok (Some half_prices)) 0)
           = map (\<lambda>x. CancelOrder (order_id x)) (pre @ post))
   \<and> order_matches scenario_params (91 / 200) 10 order_a
   \<and> fst (handle_order_side scenario_params ''buy'' [order_a] (91 / 200) 10
            (Ok (Some half_prices)) 0) = []"
proof -
  have c: "order_c \<in> set [order_b, order_c]" and a: "order_a \<in> set [order_a]" by simp_all
  have mc: "order_matches scenario_params (56 / 100) 10 order_c"
    and ma: "order_matches scenario_params (91 / 200) 10 order_a"
    by (rule order_matches_examples)+
  show ?thesis
    using c mc ma
          reconcile_matched_side [OF c mc, of "''buy''" "Ok (Some half_prices)" 0]
          reconcile_matched_side [OF a ma, of "''buy''" "Ok (Some half_prices)" 0]
    by simp
qed

lemma reconcile_one_cent_apart_kept:
  "fst (handle_order_side scenario_params ''buy'' [order_b, order_c] (56 / 100) 10
          (Ok (Some half_prices)) 0) = [CancelOrder ''c'']"
  using order_matches_examples
  by (simp add: handle_order_side_def price_for_def scenario_params_def half_prices_def
                order_c_def)

text \<open>
  Claim C8. A pass of \<open>handle_order_side\<close> issues a \<open>place_order\<close> call only when no
  order was kept, the price fetched at line 146 is available, and the desired price is
  strictly below that price for action buy, or strictly above it for action sell; the
  call carries the action, the traded side, the desired price and the desired size. When
  the comparison fails, the pass places no order.
\<close>

theorem maker_only_guard:
  assumes "PlaceOrder a s pr q e
             \<in> set (fst (handle_order_side p action orders desired_price desired_size
                           price_result now))"
  shows "\<exists>d current_price.
           price_result = Ok (Some d)
         \<and> price_for (trade_side p) d = Ok current_price
         \<and> fst (scan_orders p desired_price desired_size orders None []) = None
         \<and> a = action \<and> s = trade_side p \<and> pr = desired_price \<and> q = desired_size
         \<and> ((action = ''buy'' \<and> desired_price < current_price)
              \<or> (action = ''sell'' \<and> desired_price > current_price))"
proof -
  obtain keep calls where sc:
    "scan_orders p desired_price desired_size orders None [] = (keep, calls)"
    by (cases "scan_orders p desired_price desired_size orders None []") auto
  have nc: "PlaceOrder a s pr q e \<notin> set calls"
    using scan_orders_only_cancels [of a s pr q e "[]" p desired_price desired_size orders None]
          sc by simp
  show ?thesis
    using assms sc nc
    by (auto simp: handle_order_side_def split: res.splits option.splits if_splits)
qed

theorem maker_only_guard_witness:
  "PlaceOrder ''buy'' ''yes'' (45 / 100) 10 3600
     \<in> set (fst (handle_order_side scenario_params ''buy'' [] (45 / 100) 10
                   (Ok (Some half_prices)) 0))
   \<and> (\<exists>d current_price.
         Ok (Some half_prices) = Ok (Some d)
       \<and> price_for (trade_side scenario_params) d = Ok current_price
       \<and> 45 / 100 < current_price)"
proof -
  have h: "PlaceOrder ''buy'' ''yes'' (45 / 100) 10 3600
     \<in> set (fst (handle_order_side scenario_params ''buy'' [] (45 / 100) 10
                   (Ok (Some half_prices)) 0))"
    by (simp add: handle_order_side_def price_for_def scenario_params_def half_prices_def)
  show ?thesis
    using h maker_only_guard [OF h] by auto
qed

lemma split_char_takeWhile:
  "split_char c s = takeWhile (\<lambda>x. x \<noteq> c) s # tl (split_char c s)"
  by (induction s) (auto split: list.splits)

lemma path_without_query_takeWhile:
  "path_without_query path = takeWhile (\<lambda>x. x \<noteq> CHR ''?'') path"
proof -
  have "split_char (CHR ''?'') path
          = takeWhile (\<lambda>x. x \<noteq> CHR ''?'') path # tl (split_char (CHR ''?'') path)"
    by (rule split_char_takeWhile)
  then show ?thesis
    unfolding path_without_query_def by (cases "split_char (CHR ''?'') path") auto
qed

text \<open>
  Claim C7. For every timestamp, HTTP method and request path, the message handed to the
  signer is the concatenation of the timestamp string, the method and the path up to its
  first question mark; for the timestamp 1700000000000, the method GET and the path
  /trade-api/v2/portfolio/balance?x=1 it is 1700000000000GET/trade-api/v2/portfolio/balance.
\<close>

theorem signed_message:
  "get_signed_headers sign_pss_text api_key_id current_time_milliseconds method path =
     (case sign_pss_text (str_int current_time_milliseconds @ method
                            @ takeWhile (\<lambda>x. x \<noteq> CHR ''?'') path) of
        Raise e \<Rightarrow> Raise e
      | Ok sig \<Rightarrow> Ok \<lparr>KALSHI_ACCESS_KEY = api_key_id,
                       KALSHI_ACCESS_SIGNATURE = sig,
                       KALSHI_ACCESS_TIMESTAMP = str_int current_time_milliseconds\<rparr>)
   \<and> msg_string timestamp_str method path
       = timestamp_str @ method @ takeWhile (\<lambda>x. x \<noteq> CHR ''?'') path
   \<and> msg_string ''1700000000000'' ''GET'' ''/trade-api/v2/portfolio/balance?x=1''
       = ''1700000000000GET/trade-api/v2/portfolio/balance''
   \<and> str_int 1700000000000 = ''1700000000000''"
proof (intro conjI)
  show "msg_string timestamp_str method path
       = timestamp_str @ method @ takeWhile (\<lambda>x. x \<noteq> CHR ''?'') path"
    by (simp add: msg_string_def path_without_query_takeWhile)
  show "get_signed_headers sign_pss_text api_key_id current_time_milliseconds method path =
     (case sign_pss_text (str_int current_time_milliseconds @ method
                            @ takeWhile (\<lambda>x. x \<noteq> CHR ''?'') path) of
        Raise e \<Rightarrow> Raise e
      | Ok sig \<Rightarrow> Ok \<lparr>KALSHI_ACCESS_KEY = api_key_id,
                       KALSHI_ACCESS_SIGNATURE = sig,
                       KALSHI_ACCESS_TIMESTAMP = str_int current_time_milliseconds\<rparr>)"
    by (simp add: get_signed_headers_def Let_def msg_string_def path_without_query_takeWhile)
  show "msg_string ''1700000000000'' ''GET'' ''/trade-api/v2/portfolio/balance?x=1''
       = ''1700000000000GET/trade-api/v2/portfolio/balance''"
    by (simp add: msg_string_def path_without_query_def)
  show "str_int 1700000000000 = ''1700000000000''"
    by (simp add: str_int_def digit_char_def)
qed

lemma place_order_payload_concrete_order:
  "place_order_payload market_ticker ''buy'' ''yes'' 10 (45 / 100) None =
     \<lparr>pl_ticker = market_ticker, pl_action = ''buy'', pl_side = ''yes'', pl_count = 10,
      pl_type = ''limit'', pl_yes_price = Some 45, pl_no_price = None,
      pl_expiration_ts = None\<rparr>"
  by (simp add: place_order_payload_def lower_def lower_char_def py_int_def double_eval)

lemma place_order_payload_truncates:
  "pl_yes_price (place_order_payload market_ticker ''buy'' ''yes'' 10 (29 / 100) None)
     = Some 28"
  by (simp add: place_order_payload_def py_int_def double_eval)

text \<open>
  Claim C1 expects the payload of the interface call place_order(buy, yes, price 0.45,
  quantity 10) to carry yes_price 45 and count 10. \<open>KalshiTradingAPI.place_order\<close>
  declares \<open>count\<close> before \<open>price\<close>, so the positional call of line 150 of mm.py sends
  count 0.45 and yes_price 1000.
\<close>

theorem interface_place_order_payload:
  "fst (api_place_order market_ticker ''buy'' ''yes'' (45 / 100) 10 None (Ok headers) body) =
     [\<lparr>pl_ticker = market_ticker, pl_action = ''buy'', pl_side = ''yes'',
       pl_count = 45 / 100, pl_type = ''limit'', pl_yes_price = Some 1000,
       pl_no_price = None, pl_expiration_ts = None\<rparr>]"
  by (simp add: api_place_order_def place_order_def place_order_payload_def lower_def
                lower_char_def py_int_def double_eval)

lemma gateway_sentinels:
  "get_position market_ticker (Raise e) = Ok PosList"
  "get_orders (Raise e) = Ok []"
  "cancel_order (Raise e) = Ok False"
  "snd (place_order market_ticker action side_key count price expiration_ts signed (Raise e))
     = None"
  by (simp_all add: get_position_def get_orders_def cancel_order_def place_order_def
               split: res.splits)

text \<open>
  Claim C2 expects a failure inside a gateway operation to become a sentinel and the tick
  to skip the action. A failure inside \<open>get_price\<close> leaves the operation as NameError and
  ends the tick with that exception; a \<open>None\<close> price and the sentinel \<open>[]\<close> of
  \<open>get_position\<close> end the tick with TypeError.
\<close>

theorem tick_on_gateway_failure:
  "get_price (Raise RequestError) = Raise NameError
   \<and> run_tick scenario_params 0 (get_price (Raise RequestError)) position_result
        orders_result price_buy price_sell now_buy now_sell = ([], Raise NameError)
   \<and> run_tick scenario_params 0 (Ok None) position_result
        orders_result price_buy price_sell now_buy now_sell = ([], Raise TypeError)
   \<and> run_tick scenario_params 0 (Ok (Some half_prices))
        (get_position market_ticker (Raise RequestError))
        orders_result price_buy price_sell now_buy now_sell = ([], Raise TypeError)"
  by (simp add: get_price_def get_position_def run_tick_def price_for_def
                scenario_params_def half_prices_def)

end
